theory Spec2Isabelle
  imports Main "HOL-Library.Word" "HOL-Library.AList"
begin

section \<open>Session-lifecycle core of whatsmiau (src/lib/whatsmiau/whatsmeow.go)\<close>

text \<open>
  The file under verification is the Go type \<^verbatim>\<open>Whatsmiau\<close> with its operations
  \<^verbatim>\<open>LoadMiau\<close>, \<^verbatim>\<open>Connect\<close>, \<^verbatim>\<open>observeConnection\<close>, \<^verbatim>\<open>observeAndQrCode\<close>,
  \<^verbatim>\<open>Status\<close>, \<^verbatim>\<open>Logout\<close>, \<^verbatim>\<open>Disconnect\<close>, \<^verbatim>\<open>GetJidLid\<close> and
  \<^verbatim>\<open>extractJidLid\<close>.  Everything the file calls but does not define (the protocol
  client library, the device container, the tenant repository, object storage) is an
  external collaborator.  The embedding keeps it opaque: one abstract state \<open>'e\<close> stands
  for the whole outside world, and a record of operations \<open>('e, 'p) ext\<close> says what
  each external call returns and how it changes that state.  Every theorem below holds
  for every such record, that is, for every behaviour of the collaborators.
\<close>

subsection \<open>Values\<close>

text \<open>A Go \<^verbatim>\<open>error\<close> value; \<^verbatim>\<open>nil\<close> is \<open>None\<close> of \<open>error option\<close>.\<close>

datatype error = Error string

text \<open>A \<^verbatim>\<open>*whatsmeow.Client\<close>: the address of a client object of the outside world.\<close>

type_synonym ref = nat

text \<open>
  \<^verbatim>\<open>types.JID\<close> of the protocol library (package \<^verbatim>\<open>go.mau.fi/whatsmeow/types\<close>, imported
  by the source): the struct, its constants \<^verbatim>\<open>DefaultUserServer\<close> and
  \<^verbatim>\<open>HiddenUserServer\<close>, and its value methods \<^verbatim>\<open>ToNonAD\<close>, \<^verbatim>\<open>String\<close> and
  \<^verbatim>\<open>IsEmpty\<close>, which \<^verbatim>\<open>extractJidLid\<close>, \<^verbatim>\<open>LoadMiau\<close> and \<^verbatim>\<open>observeConnection\<close>
  call.  \<^verbatim>\<open>String\<close> prints \<^verbatim>\<open>user.agent:device@server\<close> when the agent is set,
  \<^verbatim>\<open>user:device@server\<close> when only the device is set, \<^verbatim>\<open>user@server\<close> when the user
  is not empty and the bare server otherwise.
\<close>

record JID =
  User :: string
  RawAgent :: "8 word"
  Device :: "16 word"
  Integrator :: "16 word"
  Server :: string

definition DefaultUserServer :: string where
  "DefaultUserServer = ''s.whatsapp.net''"

definition HiddenUserServer :: string where
  "HiddenUserServer = ''lid''"

definition EmptyJID :: JID where
  "EmptyJID = \<lparr>User = [], RawAgent = 0, Device = 0, Integrator = 0, Server = []\<rparr>"

definition ToNonAD :: "JID \<Rightarrow> JID" where
  "ToNonAD jid = \<lparr>User = User jid, RawAgent = 0, Device = 0,
                   Integrator = Integrator jid, Server = Server jid\<rparr>"

text \<open>The decimal rendering of \<^verbatim>\<open>%d\<close>.\<close>

function itoa :: "nat \<Rightarrow> string" where
  "itoa n = (if n < 10 then [''0123456789'' ! n]
             else itoa (n div 10) @ [''0123456789'' ! (n mod 10)])"
  by pat_completeness auto
termination
  by (relation "measure (\<lambda>n. n)") auto

declare itoa.simps [simp del]

definition JID_String :: "JID \<Rightarrow> string" where
  "JID_String jid =
     (if RawAgent jid > 0 then
        User jid @ ''.'' @ itoa (unat (RawAgent jid)) @ '':'' @ itoa (unat (Device jid))
          @ ''@'' @ Server jid
      else if Device jid > 0 then
        User jid @ '':'' @ itoa (unat (Device jid)) @ ''@'' @ Server jid
      else if length (User jid) > 0 then User jid @ ''@'' @ Server jid
      else Server jid)"

definition IsEmpty :: "JID \<Rightarrow> bool" where
  "IsEmpty jid = (length (Server jid) = 0)"

text \<open>\<^verbatim>\<open>strings.HasSuffix\<close>.\<close>

definition HasSuffix :: "string \<Rightarrow> string \<Rightarrow> bool" where
  "HasSuffix s suffix =
     (length s \<ge> length suffix \<and> drop (length s - length suffix) s = suffix)"

text \<open>
  Modelled from the spec: \<^verbatim>\<open>models.Instance\<close>, the tenant record, is declared outside
  src/.  The spec gives it a unique tenant id, a remote session identity string (empty
  until paired) and an outbound-proxy configuration; the source reads exactly the fields
  \<^verbatim>\<open>ID\<close>, \<^verbatim>\<open>RemoteJID\<close> and \<^verbatim>\<open>InstanceProxy\<close>.  The proxy configuration is a
  type parameter.
\<close>

record 'p Instance =
  ID :: string
  RemoteJID :: string
  InstanceProxy :: 'p

text \<open>\<^verbatim>\<open>whatsmeow.QRChannelItem\<close>: the fields the source reads.\<close>

record QRChannelItem =
  Event :: string
  Code :: string

subsection \<open>The external collaborators\<close>

text \<open>
  One field per external call site.  A call that can fail returns \<open>error option\<close>; a
  call that changes the outside world returns the new outside state.
  \<^item> on a client: \<^verbatim>\<open>IsLoggedIn\<close>, \<^verbatim>\<open>IsConnected\<close>, the field \<^verbatim>\<open>Store.ID\<close>
    (\<open>None\<close> is \<^verbatim>\<open>nil\<close>; the library's constructor always sets \<^verbatim>\<open>Store\<close>),
    \<^verbatim>\<open>Logout\<close>, \<^verbatim>\<open>Disconnect\<close>, \<^verbatim>\<open>Connect\<close>, \<^verbatim>\<open>GetQRChannel\<close>,
    \<^verbatim>\<open>AddEventHandler(s.Handle(id))\<close>, \<^verbatim>\<open>RemoveEventHandlers\<close>,
    \<^verbatim>\<open>Store.LIDs.GetLIDForPN\<close>, \<^verbatim>\<open>Store.LIDs.GetPNForLID\<close>;
  \<^item> \<open>x_cancel\<close>: calling the \<^verbatim>\<open>cancel\<close> function of the context that was handed to
    \<^verbatim>\<open>GetQRChannel\<close> for that client;
  \<^item> on the device container: \<^verbatim>\<open>GetAllDevices\<close> (each device already wrapped by
    \<^verbatim>\<open>whatsmeow.NewClient\<close>), \<^verbatim>\<open>NewDevice\<close> followed by \<^verbatim>\<open>whatsmeow.NewClient\<close>,
    \<^verbatim>\<open>DeleteDevice(ctx, client.Store)\<close>;
  \<^item> on the repository: \<^verbatim>\<open>List\<close>, \<^verbatim>\<open>Update(id, &Instance{RemoteJID: jid})\<close>;
  \<^item> \<^verbatim>\<open>gcs.New\<close>, only called when \<^verbatim>\<open>env.Env.GCSEnabled\<close>;
  \<^item> \<^verbatim>\<open>getInstanceCached\<close> and \<^verbatim>\<open>configProxy\<close>: functions of this package that
    are not under src/; they are taken as parameters like the external calls.
\<close>

record ('e, 'p) ext =
  x_IsLoggedIn :: "'e \<Rightarrow> ref \<Rightarrow> bool"
  x_IsConnected :: "'e \<Rightarrow> ref \<Rightarrow> bool"
  x_StoreID :: "'e \<Rightarrow> ref \<Rightarrow> JID option"
  x_Logout :: "'e \<Rightarrow> ref \<Rightarrow> 'e \<times> error option"
  x_Disconnect :: "'e \<Rightarrow> ref \<Rightarrow> 'e"
  x_Connect :: "'e \<Rightarrow> ref \<Rightarrow> 'e \<times> error option"
  x_GetQRChannel :: "'e \<Rightarrow> ref \<Rightarrow> 'e \<times> error option"
  x_cancel :: "'e \<Rightarrow> ref \<Rightarrow> 'e"
  x_AddEventHandler :: "'e \<Rightarrow> ref \<Rightarrow> string \<Rightarrow> 'e"
  x_RemoveEventHandlers :: "'e \<Rightarrow> ref \<Rightarrow> 'e"
  x_GetLIDForPN :: "'e \<Rightarrow> ref \<Rightarrow> JID \<Rightarrow> JID \<times> error option"
  x_GetPNForLID :: "'e \<Rightarrow> ref \<Rightarrow> JID \<Rightarrow> JID \<times> error option"
  x_GetAllDevices :: "'e \<Rightarrow> 'e \<times> (error + ref list)"
  x_NewClient :: "'e \<Rightarrow> 'e \<times> ref"
  x_DeleteDevice :: "'e \<Rightarrow> ref \<Rightarrow> 'e \<times> error option"
  x_RepoList :: "'e \<Rightarrow> 'e \<times> (error + 'p Instance list)"
  x_RepoUpdate :: "'e \<Rightarrow> string \<Rightarrow> string \<Rightarrow> 'e \<times> error option"
  x_GCSEnabled :: bool
  x_gcs_New :: "'e \<Rightarrow> 'e \<times> error option"
  x_getInstanceCached :: "'e \<Rightarrow> string \<Rightarrow> 'e \<times> 'p Instance"
  x_configProxy :: "'e \<Rightarrow> ref \<Rightarrow> 'p \<Rightarrow> 'e"

subsection \<open>The core object\<close>

text \<open>
  \<^verbatim>\<open>type Whatsmiau struct\<close>.  The three concurrent maps the source reads and writes
  itself are fields; the handles to collaborators (\<^verbatim>\<open>container\<close>, \<^verbatim>\<open>logger\<close>,
  \<^verbatim>\<open>repo\<close>, \<^verbatim>\<open>instanceCache\<close>, \<^verbatim>\<open>emitter\<close>, \<^verbatim>\<open>httpClient\<close>, \<^verbatim>\<open>fileStorage\<close>,
  \<^verbatim>\<open>handlerSemaphore\<close>) and the client objects the registry points to live in the outside
  state \<open>ext\<close>.  The registry is an association list because \<^verbatim>\<open>LoadMiau\<close> iterates over
  it (\<^verbatim>\<open>Range\<close>); \<^verbatim>\<open>Load\<close> is \<open>map_of\<close>, \<^verbatim>\<open>Store\<close> is \<open>AList.update\<close> and
  \<^verbatim>\<open>Delete\<close> is \<open>AList.delete\<close>.  The source's parameter \<^verbatim>\<open>id\<close>, the
  tenant id, is written \<open>tid\<close> throughout (\<open>id\<close> is HOL's identity function).
\<close>

record 'e Whatsmiau =
  ext :: 'e
  clients :: "(string \<times> ref) list"
  qrCache :: "string \<rightharpoonup> string"
  observerRunning :: "string \<rightharpoonup> bool"

datatype Status = Closed | Connecting | QrCode | Connected

subsection \<open>Status, Logout, Disconnect\<close>

text \<open>
  \<^verbatim>\<open>func (s *Whatsmiau) Status(id string) (Status, error)\<close>.  The method has a pointer
  receiver, so the model returns the core object it leaves behind together with the two
  results.
\<close>

definition Status :: "('e, 'p) ext \<Rightarrow> 'e Whatsmiau \<Rightarrow> string \<Rightarrow> 'e Whatsmiau \<times> Status \<times> error option" where
  "Status X s tid =
     (case map_of (clients s) tid of
        None \<Rightarrow> (s, Closed, None)
      | Some client \<Rightarrow>
          if x_IsConnected X (ext s) client \<and> x_IsLoggedIn X (ext s) client then (s, Connected, None)
          else if qrCache s tid \<noteq> None \<and> x_IsConnected X (ext s) client then (s, QrCode, None)
          else if x_IsLoggedIn X (ext s) client then (s, Connecting, None)
          else (s, Closed, None))"

text \<open>
  The decision table of the spec (section 4.4), in the spec's words and order: no session
  registered gives \<open>Closed\<close>; connected and authenticated gives \<open>Connected\<close>; connected
  and a pairing code cached gives \<open>QrCode\<close>; authenticated but not connected gives
  \<open>Connecting\<close>; otherwise \<open>Closed\<close>.
\<close>

definition Status_spec :: "bool \<Rightarrow> bool \<Rightarrow> bool \<Rightarrow> bool \<Rightarrow> Status" where
  "Status_spec registered connected authenticated cached =
     (if \<not> registered then Closed
      else if connected \<and> authenticated then Connected
      else if connected \<and> cached then QrCode
      else if authenticated \<and> \<not> connected then Connecting
      else Closed)"

text \<open>\<^verbatim>\<open>func (s *Whatsmiau) Logout(ctx context.Context, id string) error\<close>.\<close>

definition Logout :: "('e, 'p) ext \<Rightarrow> 'e Whatsmiau \<Rightarrow> string \<Rightarrow> 'e Whatsmiau \<times> error option" where
  "Logout X s tid =
     (case map_of (clients s) tid of
        None \<Rightarrow> (s, None)
      | Some client \<Rightarrow>
          (case x_Logout X (ext s) client of (e1, err) \<Rightarrow> (s\<lparr>ext := e1\<rparr>, err)))"

text \<open>\<^verbatim>\<open>func (s *Whatsmiau) Disconnect(id string) error\<close>.\<close>

definition Disconnect :: "('e, 'p) ext \<Rightarrow> 'e Whatsmiau \<Rightarrow> string \<Rightarrow> 'e Whatsmiau \<times> error option" where
  "Disconnect X s tid =
     (case map_of (clients s) tid of
        None \<Rightarrow> (s, None)
      | Some client \<Rightarrow>
          (let e1 = x_Disconnect X (ext s) client;
               e2 = fst (x_DeleteDevice X e1 client)
           in (s\<lparr>ext := e2,
                 clients := AList.delete tid (clients s),
                 qrCache := (qrCache s)(tid := None)\<rparr>, None)))"

subsection \<open>Identity resolution\<close>

text \<open>
  \<^verbatim>\<open>extractJidLid\<close> and its wrapper \<^verbatim>\<open>GetJidLid\<close>.  Both only read.  When the forward
  lookup fails the source logs and still returns the rendering of the \<^verbatim>\<open>lid\<close> value the
  lookup handed back.
\<close>

definition extractJidLid :: "('e, 'p) ext \<Rightarrow> 'e Whatsmiau \<Rightarrow> string \<Rightarrow> JID \<Rightarrow> string \<times> string" where
  "extractJidLid X s tid jid =
     (case map_of (clients s) tid of
        None \<Rightarrow> (JID_String (ToNonAD jid), [])
      | Some client \<Rightarrow>
          if Server jid = DefaultUserServer then
            (case x_GetLIDForPN X (ext s) client jid of
               (lid, err) \<Rightarrow> (JID_String (ToNonAD jid), JID_String (ToNonAD lid)))
          else if Server jid = HiddenUserServer then
            (let lidString = JID_String (ToNonAD jid) in
             case x_GetPNForLID X (ext s) client jid of
               (pnJID, err) \<Rightarrow>
                 if err \<noteq> None then (JID_String (ToNonAD jid), lidString)
                 else if \<not> IsEmpty pnJID then (JID_String (ToNonAD pnJID), lidString)
                 else (lidString, lidString))
          else (JID_String (ToNonAD jid), []))"

definition GetJidLid :: "('e, 'p) ext \<Rightarrow> 'e Whatsmiau \<Rightarrow> string \<Rightarrow> JID \<Rightarrow> string \<times> string" where
  "GetJidLid X s tid jid =
     (case extractJidLid X s tid jid of
        (newJid, newLid) \<Rightarrow>
          if HasSuffix newJid ''@lid'' then (newJid, newJid) else (newJid, newLid))"

text \<open>The spec's ``normalized identity'': \<^verbatim>\<open>jid.ToNonAD().String()\<close>.\<close>

definition normalized :: "JID \<Rightarrow> string" where
  "normalized jid = JID_String (ToNonAD jid)"

subsection \<open>Contexts, timers and \<^verbatim>\<open>select\<close>\<close>

text \<open>
  Time is counted in milliseconds.  A \<^verbatim>\<open>context.Context\<close> is the instant at which its
  \<^verbatim>\<open>Done\<close> channel closes, \<open>None\<close> when it never does: \<^verbatim>\<open>context.TODO()\<close> is never
  done, and a caller's context is done at the instant the caller cancels it or its
  deadline passes.  \<^verbatim>\<open>context.WithTimeout(parent, d)\<close>, called at \<open>now\<close>, is done as soon
  as the parent is done or \<open>d\<close> has elapsed, so it always has such an instant.
\<close>

type_synonym ctx = "nat option"

definition ctx_TODO :: ctx where
  "ctx_TODO = None"

definition WithTimeout :: "ctx \<Rightarrow> nat \<Rightarrow> nat \<Rightarrow> nat" where
  "WithTimeout parent now d = (case parent of None \<Rightarrow> now + d | Some t \<Rightarrow> min t (now + d))"

text \<open>
  A \<^verbatim>\<open>select\<close> between \<^verbatim>\<open><-ctx.Done()\<close>, closing at instant \<open>D\<close>, and another channel
  that becomes ready at instant \<open>t\<close>: the earlier one is taken; when both are ready at
  the same instant Go picks either, which is the scheduler's choice \<open>tie\<close> (\<open>True\<close>: the
  \<^verbatim>\<open>Done\<close> branch).
\<close>

definition done_first :: "nat \<Rightarrow> bool \<Rightarrow> nat \<Rightarrow> bool" where
  "done_first D tie t = (D < t \<or> (D = t \<and> tie))"

subsection \<open>Connect and the caller-facing wait\<close>

text \<open>
  The loop of \<^verbatim>\<open>observeAndQrCode\<close>.  The ticker fires every 200 ms; \<open>t\<close> is the instant
  of its next tick and \<open>qr_at t\<close> is what \<^verbatim>\<open>s.qrCache.Load(id)\<close> returns at that instant.
  The cache is written by observer goroutines running concurrently, so its content over
  time is an input of the loop.
\<close>

function observeAndQrCode_loop :: "(nat \<Rightarrow> string option) \<Rightarrow> bool \<Rightarrow> nat \<Rightarrow> nat \<Rightarrow> string \<times> error option" where
  "observeAndQrCode_loop qr_at tie D t =
     (if done_first D tie t then ([], None)
      else case qr_at t of
             Some qrCode \<Rightarrow>
               if length qrCode > 0 then (qrCode, None)
               else observeAndQrCode_loop qr_at tie D (t + 200)
           | None \<Rightarrow> observeAndQrCode_loop qr_at tie D (t + 200))"
  by pat_completeness auto
termination
  by (relation "measure (\<lambda>(qr_at, tie, D, t). D + 200 - t)") (auto simp: done_first_def)

declare observeAndQrCode_loop.simps [simp del]

text \<open>
  \<^verbatim>\<open>observeAndQrCode\<close>, called at instant \<open>now\<close> with the caller's context \<open>ctx\<close>.  The
  first component of the result is the goroutine it starts:
  \<^verbatim>\<open>go s.observeConnection(client, id)\<close>.
\<close>

definition observeAndQrCode :: "ctx \<Rightarrow> nat \<Rightarrow> bool \<Rightarrow> (nat \<Rightarrow> string option) \<Rightarrow> string \<Rightarrow> ref \<Rightarrow> (ref \<times> string) \<times> string \<times> error option" where
  "observeAndQrCode ctx now tie qr_at tid client =
     ((client, tid), observeAndQrCode_loop qr_at tie (WithTimeout ctx now 15000) (now + 200))"

text \<open>
  The best-effort teardown the source writes out twice in \<^verbatim>\<open>LoadMiau\<close> and once in
  \<^verbatim>\<open>observeConnection\<close>: \<^verbatim>\<open>Logout\<close>, \<^verbatim>\<open>Disconnect\<close>, \<^verbatim>\<open>DeleteDevice\<close>, with
  the first error dropped and the second only logged, by a log call that reads nothing
  of the session.  (\<^verbatim>\<open>Connect\<close> has a teardown of its own, below, whose log calls do
  read the session.)
\<close>

definition discard :: "('e, 'p) ext \<Rightarrow> 'e \<Rightarrow> ref \<Rightarrow> 'e" where
  "discard X e client =
     (let e1 = fst (x_Logout X e client);
          e2 = x_Disconnect X e1 client
      in fst (x_DeleteDevice X e2 client))"

text \<open>
  \<^verbatim>\<open>func (s *Whatsmiau) Connect(ctx context.Context, id string) (string, error)\<close>,
  in the three blocks of its body.  First the session of the tenant is loaded, or
  created and registered when there is none.
\<close>

definition Connect_client :: "('e, 'p) ext \<Rightarrow> 'e Whatsmiau \<Rightarrow> string \<Rightarrow> 'e Whatsmiau \<times> ref" where
  "Connect_client X s tid =
     (case map_of (clients s) tid of
        Some client \<Rightarrow> (s, client)
      | None \<Rightarrow>
          (case x_NewClient X (ext s) of
             (e1, client) \<Rightarrow>
               (s\<lparr>ext := e1, clients := AList.update tid client (clients s)\<rparr>, client)))"

text \<open>
  A Go run-time panic.  The only one the model needs is the dereference of a nil
  \<^verbatim>\<open>*types.JID\<close>: \<^verbatim>\<open>client.Store.ID.String()\<close> calls a value-receiver method through
  the pointer.
\<close>

datatype panic = NilPointerDereference

text \<open>
  A session that is not authenticated but carries an identity is torn down and replaced
  (\<^verbatim>\<open>if client.Store != nil && client.Store.ID != nil\<close>).  Both log calls of this
  block take \<^verbatim>\<open>client.Store.ID.String()\<close> as an argument, which Go evaluates before the
  call whatever the log level: when \<^verbatim>\<open>Logout\<close> fails the identity is read again after
  it, and when \<^verbatim>\<open>DeleteDevice\<close> fails it is read again after that.  If the identity is
  nil by then the function panics and does not return; \<open>Inl\<close> is that outcome, with
  the core object as the calls made so far have left it.
\<close>

definition Connect_renew :: "('e, 'p) ext \<Rightarrow> 'e Whatsmiau \<Rightarrow> string \<Rightarrow> ref \<Rightarrow> 'e Whatsmiau \<times> (panic + ref)" where
  "Connect_renew X s tid client =
     (if x_StoreID X (ext s) client \<noteq> None then
        (case x_Logout X (ext s) client of
           (e1, err) \<Rightarrow>
             if err \<noteq> None \<and> x_StoreID X e1 client = None then
               (s\<lparr>ext := e1\<rparr>, Inl NilPointerDereference)
             else
               (case x_DeleteDevice X (x_Disconnect X e1 client) client of
                  (e3, err') \<Rightarrow>
                    if err' \<noteq> None \<and> x_StoreID X e3 client = None then
                      (s\<lparr>ext := e3\<rparr>, Inl NilPointerDereference)
                    else
                      (case x_NewClient X e3 of
                         (e4, client') \<Rightarrow>
                           (s\<lparr>ext := e4, clients := AList.update tid client' (clients s)\<rparr>,
                            Inr client'))))
      else (s, Inr client))"

text \<open>
  The whole function.  The result is the core object as this call leaves it, the
  goroutine it started if any, and either the panic that ended the call or the two
  results the source returns.
\<close>

definition Connect :: "('e, 'p) ext \<Rightarrow> ctx \<Rightarrow> nat \<Rightarrow> bool \<Rightarrow> (nat \<Rightarrow> string option) \<Rightarrow> 'e Whatsmiau \<Rightarrow> string
    \<Rightarrow> 'e Whatsmiau \<times> (ref \<times> string) option \<times> (panic + string \<times> error option)" where
  "Connect X ctx now tie qr_at s tid =
     (case Connect_client X s tid of
        (s1, client) \<Rightarrow>
          if x_IsLoggedIn X (ext s1) client then (s1, None, Inr ([], None))
          else
            (case Connect_renew X s1 tid client of
               (s2, Inl p) \<Rightarrow> (s2, None, Inl p)
             | (s2, Inr client2) \<Rightarrow>
                 (case qrCache s2 tid of
                    Some qr \<Rightarrow> (s2, None, Inr (qr, None))
                  | None \<Rightarrow>
                      (case observeAndQrCode ctx now tie qr_at tid client2 of
                         (g, qrCode, err) \<Rightarrow>
                           if err \<noteq> None then (s2, Some g, Inr ([], err))
                           else (s2, Some g, Inr (qrCode, None))))))"

subsection \<open>The pairing observer\<close>

text \<open>
  What one \<^verbatim>\<open>select\<close> of the observer's loop receives from \<^verbatim>\<open>qrChan\<close>: the channel
  was closed, or an item.  Each input carries the instant at which it becomes ready.
\<close>

datatype qr_recv = ChanClosed | Item QRChannelItem

text \<open>The \<^verbatim>\<open>return\<close> statement by which a run of \<^verbatim>\<open>observeConnection\<close> ends.\<close>

datatype exit_path =
    AlreadyRunning
  | QRChannelError
  | ConnectError
  | Expired
  | ChannelClosed
  | PairedNoJid
  | Paired

text \<open>The branch \<^verbatim>\<open>case <-ctx.Done()\<close>.\<close>

definition expire :: "('e, 'p) ext \<Rightarrow> 'e Whatsmiau \<Rightarrow> ref \<Rightarrow> string \<Rightarrow> 'e Whatsmiau" where
  "expire X s client tid =
     s\<lparr>ext := discard X (ext s) client, clients := AList.delete tid (clients s)\<rparr>"

text \<open>
  The \<^verbatim>\<open>for { select { ... } }\<close> loop.  \<open>D\<close> is the instant at which the observer's
  context is done.  When nothing more arrives on the channel the context's timer is what
  fires.  The source reads \<^verbatim>\<open>client.Store.ID\<close> for the nil check and again for the
  update; the two calls in between register handlers and do not write that field, so the
  model reads it once.
\<close>

fun observeConnection_loop :: "('e, 'p) ext \<Rightarrow> nat \<Rightarrow> bool \<Rightarrow> ref \<Rightarrow> string \<Rightarrow> 'e Whatsmiau
    \<Rightarrow> (nat \<times> qr_recv) list \<Rightarrow> 'e Whatsmiau \<times> exit_path" where
  "observeConnection_loop X D tie client tid s [] = (expire X s client tid, Expired)"
| "observeConnection_loop X D tie client tid s ((t, r) # rest) =
     (if done_first D tie t then (expire X s client tid, Expired)
      else case r of
             ChanClosed \<Rightarrow> (s\<lparr>ext := x_cancel X (ext s) client\<rparr>, ChannelClosed)
           | Item evt \<Rightarrow>
               if Event evt = ''code'' then
                 observeConnection_loop X D tie client tid
                   (s\<lparr>qrCache := (qrCache s)(tid \<mapsto> Code evt)\<rparr>) rest
               else
                 (case x_StoreID X (ext s) client of
                    None \<Rightarrow> (s\<lparr>ext := x_cancel X (ext s) client\<rparr>, PairedNoJid)
                  | Some jid \<Rightarrow>
                      (let e1 = x_RemoveEventHandlers X (ext s) client;
                           e2 = x_AddEventHandler X e1 client tid;
                           e3 = fst (x_RepoUpdate X e2 tid (JID_String jid))
                       in (s\<lparr>ext := x_cancel X e3 client\<rparr>, Paired))))"


text \<open>The body between the guard and the loop, entered at instant \<open>now\<close>.\<close>

definition observeConnection_body :: "('e, 'p) ext \<Rightarrow> nat \<Rightarrow> bool \<Rightarrow> (nat \<times> qr_recv) list \<Rightarrow> 'e Whatsmiau
    \<Rightarrow> ref \<Rightarrow> string \<Rightarrow> 'e Whatsmiau \<times> exit_path" where
  "observeConnection_body X now tie evs s client tid =
     (let D = WithTimeout ctx_TODO now 120000 in
      case x_GetQRChannel X (ext s) client of
        (e1, err) \<Rightarrow>
          if err \<noteq> None then (s\<lparr>ext := e1\<rparr>, QRChannelError)
          else if \<not> x_IsConnected X e1 client then
            (case x_getInstanceCached X e1 tid of
               (e2, instanceFound) \<Rightarrow>
                 (case x_Connect X (x_configProxy X e2 client (InstanceProxy instanceFound)) client of
                    (e4, err) \<Rightarrow>
                      if err \<noteq> None then (s\<lparr>ext := e4\<rparr>, ConnectError)
                      else observeConnection_loop X D tie client tid (s\<lparr>ext := e4\<rparr>) evs))
          else observeConnection_loop X D tie client tid (s\<lparr>ext := e1\<rparr>) evs)"

text \<open>The deferred function.\<close>

definition deferred :: "'e Whatsmiau \<Rightarrow> string \<Rightarrow> 'e Whatsmiau" where
  "deferred s tid =
     s\<lparr>observerRunning := (observerRunning s)(tid := None),
       qrCache := (qrCache s)(tid := None)\<rparr>"

text \<open>
  \<^verbatim>\<open>func (s *Whatsmiau) observeConnection(client *whatsmeow.Client, id string)\<close>, run
  without interference from other goroutines: the guard (a \<^verbatim>\<open>Load\<close>, then a
  \<^verbatim>\<open>Store\<close>), the body, and the deferred function on every return after the
  \<^verbatim>\<open>defer\<close> statement.
\<close>

definition observeConnection :: "('e, 'p) ext \<Rightarrow> nat \<Rightarrow> bool \<Rightarrow> (nat \<times> qr_recv) list \<Rightarrow> 'e Whatsmiau
    \<Rightarrow> ref \<Rightarrow> string \<Rightarrow> 'e Whatsmiau \<times> exit_path" where
  "observeConnection X now tie evs s client tid =
     (if observerRunning s tid \<noteq> None then (s, AlreadyRunning)
      else
        (case observeConnection_body X now tie evs
                (s\<lparr>observerRunning := (observerRunning s)(tid \<mapsto> True)\<rparr>) client tid of
           (s', ex) \<Rightarrow> (deferred s' tid, ex)))"

subsection \<open>Concurrent observers: their accesses to the two maps\<close>

text \<open>
  \<^verbatim>\<open>observeAndQrCode\<close> starts \<^verbatim>\<open>observeConnection\<close> as a goroutine on every call, so
  several runs for one tenant can be in flight together.  Each operation on an
  \<^verbatim>\<open>xsync.Map\<close> is atomic, but a goroutine can be interleaved with others between any
  two of them.  The steps below are the accesses of one observer goroutine to
  \<^verbatim>\<open>observerRunning\<close> and \<^verbatim>\<open>qrCache\<close>, one map operation per step:
  \<^item> \<open>GuardLoad\<close>: \<^verbatim>\<open>s.observerRunning.Load(id)\<close>, returning at once when a flag is there;
  \<^item> \<open>GuardStore\<close>: \<^verbatim>\<open>s.observerRunning.Store(id, true)\<close>;
  \<^item> \<open>Observing\<close>: between the \<^verbatim>\<open>defer\<close> statement and a \<^verbatim>\<open>return\<close>; here the
    goroutine either stores a received code (\<^verbatim>\<open>s.qrCache.Store(id, evt.Code)\<close>) or
    takes one of its returns;
  \<^item> \<open>DeferFlag\<close>, \<open>DeferCache\<close>: the two deletes of the deferred function;
  \<^item> \<open>Returned\<close>.
\<close>

datatype pc = GuardLoad | GuardStore | Observing | DeferFlag | DeferCache | Returned

datatype move = Next | RecvCode string | Return

record shared =
  sh_running :: "string \<rightharpoonup> bool"
  sh_cache :: "string \<rightharpoonup> string"

type_synonym goroutine = "string \<times> pc"

fun observer_step :: "shared \<Rightarrow> goroutine \<Rightarrow> move \<Rightarrow> shared \<times> goroutine" where
  "observer_step sh (tid, GuardLoad) m =
     (if sh_running sh tid \<noteq> None then (sh, (tid, Returned)) else (sh, (tid, GuardStore)))"
| "observer_step sh (tid, GuardStore) m =
     (sh\<lparr>sh_running := (sh_running sh)(tid \<mapsto> True)\<rparr>, (tid, Observing))"
| "observer_step sh (tid, Observing) (RecvCode code) =
     (sh\<lparr>sh_cache := (sh_cache sh)(tid \<mapsto> code)\<rparr>, (tid, Observing))"
| "observer_step sh (tid, Observing) Return = (sh, (tid, DeferFlag))"
| "observer_step sh (tid, Observing) Next = (sh, (tid, Observing))"
| "observer_step sh (tid, DeferFlag) m =
     (sh\<lparr>sh_running := (sh_running sh)(tid := None)\<rparr>, (tid, DeferCache))"
| "observer_step sh (tid, DeferCache) m =
     (sh\<lparr>sh_cache := (sh_cache sh)(tid := None)\<rparr>, (tid, Returned))"
| "observer_step sh (tid, Returned) m = (sh, (tid, Returned))"

text \<open>A schedule names, step by step, the goroutine that runs next and what it does.\<close>

fun sched_step :: "shared \<times> goroutine list \<Rightarrow> nat \<times> move \<Rightarrow> shared \<times> goroutine list" where
  "sched_step (sh, gs) (i, m) =
     (if i < length gs then
        (case observer_step sh (gs ! i) m of (sh', g') \<Rightarrow> (sh', gs[i := g']))
      else (sh, gs))"

definition run_sched :: "shared \<times> goroutine list \<Rightarrow> (nat \<times> move) list \<Rightarrow> shared \<times> goroutine list" where
  "run_sched st sched = foldl sched_step st sched"

text \<open>A goroutine that has passed the entry guard and has not returned yet.\<close>

fun active :: "pc \<Rightarrow> bool" where
  "active Observing = True"
| "active DeferFlag = True"
| "active DeferCache = True"
| "active p = False"

definition active_for :: "string \<Rightarrow> goroutine list \<Rightarrow> goroutine list" where
  "active_for tid gs = filter (\<lambda>g. fst g = tid \<and> active (snd g)) gs"

text \<open>
  The spec's ``a pairing cache entry exists only while that tenant's pairing is in
  progress'': every tenant with a cache entry has an active observer goroutine.
\<close>

definition cache_only_while_observing :: "shared \<times> goroutine list \<Rightarrow> bool" where
  "cache_only_while_observing st =
     (\<forall>tid. sh_cache (fst st) tid \<noteq> None \<longrightarrow> active_for tid (snd st) \<noteq> [])"

subsection \<open>Bootstrap\<close>





subsection \<open>A recording stand-in for the collaborators\<close>

text \<open>
  To run the model on concrete inputs the collaborators are replaced by a stand-in whose
  outside state is the list of the calls made so far.  A scenario fixes what the
  stand-in answers: which clients are authenticated, which are connected, which carry a
  \<^verbatim>\<open>Store.ID\<close>, which calls fail, the persisted devices, the tenant list and the
  identity mappings.
\<close>

datatype call =
    Call_Logout ref
  | Call_Disconnect ref
  | Call_Connect ref
  | Call_GetQRChannel ref
  | Call_cancel ref
  | Call_AddEventHandler ref string
  | Call_RemoveEventHandlers ref
  | Call_GetAllDevices
  | Call_NewClient
  | Call_DeleteDevice ref
  | Call_RepoList
  | Call_RepoUpdate string string
  | Call_gcs_New
  | Call_getInstanceCached string
  | Call_configProxy ref
  | Call_GetLIDForPN
  | Call_GetPNForLID

record scenario =
  sc_loggedIn :: "ref list"
  sc_connected :: "ref list"
  sc_storeID :: "(ref \<times> JID) list"
  sc_failing :: "call list"
  sc_devices :: "ref list"
  sc_instances :: "unit Instance list"
  sc_lids :: "(JID \<times> JID) list"
  sc_pns :: "(JID \<times> JID) list"

definition quiet :: scenario where
  "quiet = \<lparr>sc_loggedIn = [], sc_connected = [], sc_storeID = [], sc_failing = [],
            sc_devices = [], sc_instances = [], sc_lids = [], sc_pns = []\<rparr>"

definition outcome :: "scenario \<Rightarrow> call \<Rightarrow> error option" where
  "outcome sc c = (if c \<in> set (sc_failing sc) then Some (Error ''failed'') else None)"

definition recording :: "scenario \<Rightarrow> (call list, unit) ext" where
  "recording sc =
     \<lparr>x_IsLoggedIn = (\<lambda>e r. r \<in> set (sc_loggedIn sc)),
      x_IsConnected = (\<lambda>e r. r \<in> set (sc_connected sc)),
      x_StoreID = (\<lambda>e r. map_of (sc_storeID sc) r),
      x_Logout = (\<lambda>e r. (e @ [Call_Logout r], outcome sc (Call_Logout r))),
      x_Disconnect = (\<lambda>e r. e @ [Call_Disconnect r]),
      x_Connect = (\<lambda>e r. (e @ [Call_Connect r], outcome sc (Call_Connect r))),
      x_GetQRChannel = (\<lambda>e r. (e @ [Call_GetQRChannel r], outcome sc (Call_GetQRChannel r))),
      x_cancel = (\<lambda>e r. e @ [Call_cancel r]),
      x_AddEventHandler = (\<lambda>e r tid. e @ [Call_AddEventHandler r tid]),
      x_RemoveEventHandlers = (\<lambda>e r. e @ [Call_RemoveEventHandlers r]),
      x_GetLIDForPN = (\<lambda>e r jid.
         if Call_GetLIDForPN \<in> set (sc_failing sc) then (EmptyJID, Some (Error ''failed''))
         else (case map_of (sc_lids sc) jid of Some lid \<Rightarrow> (lid, None) | None \<Rightarrow> (EmptyJID, None))),
      x_GetPNForLID = (\<lambda>e r jid.
         if Call_GetPNForLID \<in> set (sc_failing sc) then (EmptyJID, Some (Error ''failed''))
         else (case map_of (sc_pns sc) jid of Some pn \<Rightarrow> (pn, None) | None \<Rightarrow> (EmptyJID, None))),
      x_GetAllDevices = (\<lambda>e.
         (e @ [Call_GetAllDevices],
          if Call_GetAllDevices \<in> set (sc_failing sc) then Inl (Error ''failed'')
          else Inr (sc_devices sc))),
      x_NewClient = (\<lambda>e. (e @ [Call_NewClient], 1000 + length e)),
      x_DeleteDevice = (\<lambda>e r. (e @ [Call_DeleteDevice r], outcome sc (Call_DeleteDevice r))),
      x_RepoList = (\<lambda>e.
         (e @ [Call_RepoList],
          if Call_RepoList \<in> set (sc_failing sc) then Inl (Error ''failed'')
          else Inr (sc_instances sc))),
      x_RepoUpdate = (\<lambda>e tid jid.
         (e @ [Call_RepoUpdate tid jid], outcome sc (Call_RepoUpdate tid jid))),
      x_GCSEnabled = False,
      x_gcs_New = (\<lambda>e. (e @ [Call_gcs_New], outcome sc Call_gcs_New)),
      x_getInstanceCached = (\<lambda>e tid.
         (e @ [Call_getInstanceCached tid], \<lparr>ID = tid, RemoteJID = [], InstanceProxy = ()\<rparr>)),
      x_configProxy = (\<lambda>e r p. e @ [Call_configProxy r])\<rparr>"

text \<open>The core object before any tenant has a session.\<close>

definition fresh :: "call list Whatsmiau" where
  "fresh = \<lparr>ext = [], clients = [], qrCache = Map.empty, observerRunning = Map.empty\<rparr>"

definition one_session :: "call list Whatsmiau" where
  "one_session = fresh\<lparr>clients := [(''t1'', 0)]\<rparr>"

text \<open>A phone-number identity with a device part, and a privacy identity.\<close>

definition phone_jid :: JID where
  "phone_jid = \<lparr>User = ''5511'', RawAgent = 0, Device = 3, Integrator = 0, Server = ''s.whatsapp.net''\<rparr>"

definition privacy_jid :: JID where
  "privacy_jid = \<lparr>User = ''9988'', RawAgent = 0, Device = 0, Integrator = 0, Server = ''lid''\<rparr>"



text \<open>
  A stand-in whose logout clears the identity of the session, as the protocol client's
  does when it succeeds.
\<close>

definition logout_clears :: "scenario \<Rightarrow> (call list, unit) ext" where
  "logout_clears sc =
     (recording sc)\<lparr>x_StoreID :=
        (\<lambda>e r. if Call_Logout r \<in> set e then None else map_of (sc_storeID sc) r)\<rparr>"



section \<open>Properties\<close>

subsection \<open>Evaluating the stand-in\<close>

lemma recording_simps:
  "x_IsLoggedIn (recording sc) e r = (r \<in> set (sc_loggedIn sc))"
  "x_IsConnected (recording sc) e r = (r \<in> set (sc_connected sc))"
  "x_StoreID (recording sc) e r = map_of (sc_storeID sc) r"
  "x_Logout (recording sc) e r = (e @ [Call_Logout r], outcome sc (Call_Logout r))"
  "x_Disconnect (recording sc) e r = e @ [Call_Disconnect r]"
  "x_Connect (recording sc) e r = (e @ [Call_Connect r], outcome sc (Call_Connect r))"
  "x_GetQRChannel (recording sc) e r = (e @ [Call_GetQRChannel r], outcome sc (Call_GetQRChannel r))"
  "x_cancel (recording sc) e r = e @ [Call_cancel r]"
  "x_AddEventHandler (recording sc) e r tid = e @ [Call_AddEventHandler r tid]"
  "x_RemoveEventHandlers (recording sc) e r = e @ [Call_RemoveEventHandlers r]"
  "x_GetLIDForPN (recording sc) e r jid =
     (if Call_GetLIDForPN \<in> set (sc_failing sc) then (EmptyJID, Some (Error ''failed''))
      else (case map_of (sc_lids sc) jid of Some lid \<Rightarrow> (lid, None) | None \<Rightarrow> (EmptyJID, None)))"
  "x_GetPNForLID (recording sc) e r jid =
     (if Call_GetPNForLID \<in> set (sc_failing sc) then (EmptyJID, Some (Error ''failed''))
      else (case map_of (sc_pns sc) jid of Some pn \<Rightarrow> (pn, None) | None \<Rightarrow> (EmptyJID, None)))"
  "x_GetAllDevices (recording sc) e =
     (e @ [Call_GetAllDevices],
      if Call_GetAllDevices \<in> set (sc_failing sc) then Inl (Error ''failed'') else Inr (sc_devices sc))"
  "x_NewClient (recording sc) e = (e @ [Call_NewClient], 1000 + length e)"
  "x_DeleteDevice (recording sc) e r = (e @ [Call_DeleteDevice r], outcome sc (Call_DeleteDevice r))"
  "x_RepoList (recording sc) e =
     (e @ [Call_RepoList],
      if Call_RepoList \<in> set (sc_failing sc) then Inl (Error ''failed'') else Inr (sc_instances sc))"
  "x_RepoUpdate (recording sc) e tid jid' = (e @ [Call_RepoUpdate tid jid'], outcome sc (Call_RepoUpdate tid jid'))"
  "x_GCSEnabled (recording sc) = False"
  "x_gcs_New (recording sc) e = (e @ [Call_gcs_New], outcome sc Call_gcs_New)"
  "x_getInstanceCached (recording sc) e tid =
     (e @ [Call_getInstanceCached tid], \<lparr>ID = tid, RemoteJID = [], InstanceProxy = ()\<rparr>)"
  "x_configProxy (recording sc) e r p = e @ [Call_configProxy r]"
  by (simp_all add: recording_def)

lemma quiet_simps:
  "sc_loggedIn quiet = []" "sc_connected quiet = []" "sc_storeID quiet = []"
  "sc_failing quiet = []" "sc_devices quiet = []" "sc_instances quiet = []"
  "sc_lids quiet = []" "sc_pns quiet = []"
  by (simp_all add: quiet_def)

lemma demo_simps:
  "map_of (clients one_session) ''t1'' = Some 0"
  "map_of (clients fresh) ''t1'' = None"
  "ext one_session = []" "ext fresh = []"
  "qrCache fresh = Map.empty" "qrCache one_session = Map.empty"
  "observerRunning fresh = Map.empty" "observerRunning one_session = Map.empty"
  "clients fresh = []" "clients one_session = [(''t1'', 0)]"
  "Server phone_jid = DefaultUserServer"
  "Server privacy_jid = HiddenUserServer"
  "DefaultUserServer \<noteq> HiddenUserServer"
  "HiddenUserServer \<noteq> DefaultUserServer"
  "normalized phone_jid = ''5511@s.whatsapp.net''"
  "normalized privacy_jid = ''9988@lid''"
  "normalized EmptyJID = []"
  "JID_String phone_jid = ''5511:3@s.whatsapp.net''"
  "JID_String privacy_jid = ''9988@lid''"
  "\<not> IsEmpty phone_jid"
  "IsEmpty EmptyJID"
  "phone_jid \<noteq> privacy_jid" "privacy_jid \<noteq> phone_jid"
  "privacy_jid \<noteq> EmptyJID" "phone_jid \<noteq> EmptyJID"
  by (simp_all add: one_session_def fresh_def phone_jid_def privacy_jid_def DefaultUserServer_def
      HiddenUserServer_def normalized_def ToNonAD_def JID_String_def IsEmpty_def EmptyJID_def
      itoa.simps)

lemma run_simps:
  "WithTimeout ctx_TODO now d = now + d"
  "WithTimeout (Some c) now d = min c (now + d)"
  "done_first D tie t = (D < t \<or> (D = t \<and> tie))"
  by (simp_all add: WithTimeout_def ctx_TODO_def done_first_def)

lemma demo_run_expired:
  "observeConnection (recording quiet) 0 False
      [(1000, Item \<lparr>Event = ''code'', Code = ''ABC123''\<rparr>)] one_session 0 ''t1''
   = (\<lparr>ext = [Call_GetQRChannel 0, Call_getInstanceCached ''t1'', Call_configProxy 0,
              Call_Connect 0, Call_Logout 0, Call_Disconnect 0, Call_DeleteDevice 0],
       clients = [], qrCache = Map.empty, observerRunning = Map.empty\<rparr>, Expired)"
  by (simp add: observeConnection_def observeConnection_body_def Let_def recording_simps
      quiet_simps outcome_def run_simps expire_def discard_def deferred_def
      one_session_def fresh_def)

lemma demo_run_qr_error:
  "observeConnection (recording (quiet\<lparr>sc_failing := [Call_GetQRChannel 0]\<rparr>)) 0 False
      [(1000, Item \<lparr>Event = ''code'', Code = ''ABC123''\<rparr>)] one_session 0 ''t1''
   = (\<lparr>ext = [Call_GetQRChannel 0],
       clients = [(''t1'', 0)], qrCache = Map.empty, observerRunning = Map.empty\<rparr>, QRChannelError)"
  by (simp add: observeConnection_def observeConnection_body_def Let_def recording_simps
      quiet_simps outcome_def run_simps expire_def discard_def deferred_def
      one_session_def fresh_def)

lemma demo_run_connect_error:
  "observeConnection (recording (quiet\<lparr>sc_failing := [Call_Connect 0]\<rparr>)) 0 False
      [(1000, Item \<lparr>Event = ''code'', Code = ''ABC123''\<rparr>)] one_session 0 ''t1''
   = (\<lparr>ext = [Call_GetQRChannel 0, Call_getInstanceCached ''t1'', Call_configProxy 0, Call_Connect 0],
       clients = [(''t1'', 0)], qrCache = Map.empty, observerRunning = Map.empty\<rparr>, ConnectError)"
  by (simp add: observeConnection_def observeConnection_body_def Let_def recording_simps
      quiet_simps outcome_def run_simps expire_def discard_def deferred_def
      one_session_def fresh_def)

lemma demo_run_closed:
  "observeConnection (recording quiet) 0 False
      [(1000, Item \<lparr>Event = ''code'', Code = ''ABC123''\<rparr>), (2000, ChanClosed)] one_session 0 ''t1''
   = (\<lparr>ext = [Call_GetQRChannel 0, Call_getInstanceCached ''t1'', Call_configProxy 0,
              Call_Connect 0, Call_cancel 0],
       clients = [(''t1'', 0)], qrCache = Map.empty, observerRunning = Map.empty\<rparr>, ChannelClosed)"
  by (simp add: observeConnection_def observeConnection_body_def Let_def recording_simps
      quiet_simps outcome_def run_simps expire_def discard_def deferred_def
      one_session_def fresh_def)

lemma demo_run_success:
  "observeConnection (recording (quiet\<lparr>sc_storeID := [(0, phone_jid)]\<rparr>)) 0 False
      [(1000, Item \<lparr>Event = ''code'', Code = ''ABC123''\<rparr>),
       (3000, Item \<lparr>Event = ''success'', Code = []\<rparr>)] one_session 0 ''t1''
   = (\<lparr>ext = [Call_GetQRChannel 0, Call_getInstanceCached ''t1'', Call_configProxy 0,
              Call_Connect 0, Call_RemoveEventHandlers 0, Call_AddEventHandler 0 ''t1'',
              Call_RepoUpdate ''t1'' ''5511:3@s.whatsapp.net'', Call_cancel 0],
       clients = [(''t1'', 0)], qrCache = Map.empty, observerRunning = Map.empty\<rparr>, Paired)"
  by (simp add: observeConnection_def observeConnection_body_def Let_def recording_simps
      quiet_simps outcome_def run_simps expire_def discard_def deferred_def
      one_session_def fresh_def demo_simps)

lemma demo_run_no_jid:
  "observeConnection (recording quiet) 0 False
      [(3000, Item \<lparr>Event = ''success'', Code = []\<rparr>)] one_session 0 ''t1''
   = (\<lparr>ext = [Call_GetQRChannel 0, Call_getInstanceCached ''t1'', Call_configProxy 0,
              Call_Connect 0, Call_cancel 0],
       clients = [(''t1'', 0)], qrCache = Map.empty, observerRunning = Map.empty\<rparr>, PairedNoJid)"
  by (simp add: observeConnection_def observeConnection_body_def Let_def recording_simps
      quiet_simps outcome_def run_simps expire_def discard_def deferred_def
      one_session_def fresh_def demo_simps)


subsection \<open>Status\<close>

text \<open>
  Claim C5.  \<^verbatim>\<open>Status\<close> changes nothing: the core object it leaves behind is the one
  it was called on, and its error is always nil.  Its answer is the spec's decision
  table, evaluated in the spec's order: with no session registered for the tenant it is
  \<open>Closed\<close>; with a session it is \<open>Connected\<close> when the session is connected and
  authenticated, else \<open>QrCode\<close> when it is connected and a pairing code is cached for the
  tenant, else \<open>Connecting\<close> when it is authenticated but not connected, else \<open>Closed\<close>.
\<close>

theorem Status_projection:
  "(map_of (clients s) tid = None \<longrightarrow> Status X s tid = (s, Closed, None)) \<and>
   (\<forall>client. map_of (clients s) tid = Some client \<longrightarrow>
      Status X s tid =
        (s, Status_spec True (x_IsConnected X (ext s) client) (x_IsLoggedIn X (ext s) client)
              (qrCache s tid \<noteq> None), None))"
  by (auto simp: Status_def Status_spec_def)

theorem Status_projection_witness:
  "map_of (clients (fresh\<lparr>clients := [(''t1'', 0)], qrCache := [''t1'' \<mapsto> ''ABC123'']\<rparr>)) ''t1'' = Some 0 \<and>
   Status (recording (quiet\<lparr>sc_connected := [0]\<rparr>))
      (fresh\<lparr>clients := [(''t1'', 0)], qrCache := [''t1'' \<mapsto> ''ABC123'']\<rparr>) ''t1''
     = (fresh\<lparr>clients := [(''t1'', 0)], qrCache := [''t1'' \<mapsto> ''ABC123'']\<rparr>, QrCode, None) \<and>
   map_of (clients fresh) ''t1'' = None \<and>
   Status (recording quiet) fresh ''t1'' = (fresh, Closed, None)"
  using Status_projection [of "fresh\<lparr>clients := [(''t1'', 0)], qrCache := [''t1'' \<mapsto> ''ABC123'']\<rparr>" "''t1''"
      "recording (quiet\<lparr>sc_connected := [0]\<rparr>)"]
    Status_projection [of fresh "''t1''" "recording quiet"]
  by (simp add: fresh_def recording_def quiet_def Status_spec_def)

subsection \<open>Logout\<close>

lemma Logout_unknown:
  "map_of (clients s) tid = None \<Longrightarrow> Logout X s tid = (s, None)"
  by (simp add: Logout_def)

text \<open>
  Claim C10.  For a tenant with a registered session, \<^verbatim>\<open>Logout\<close> returns exactly what
  the protocol client's logout returned, error included; the outside world is left as
  that one call left it; the registry, the pairing cache and the observer flags are
  untouched, so the session is still registered afterwards.
\<close>

theorem Logout_returns_client_result:
  "map_of (clients s) tid = Some client \<Longrightarrow>
     snd (Logout X s tid) = snd (x_Logout X (ext s) client) \<and>
     ext (fst (Logout X s tid)) = fst (x_Logout X (ext s) client) \<and>
     clients (fst (Logout X s tid)) = clients s \<and>
     qrCache (fst (Logout X s tid)) = qrCache s \<and>
     observerRunning (fst (Logout X s tid)) = observerRunning s \<and>
     map_of (clients (fst (Logout X s tid))) tid = Some client"
  by (simp add: Logout_def split: prod.splits)

theorem Logout_returns_client_result_witness:
  "map_of (clients (fresh\<lparr>clients := [(''t1'', 0)]\<rparr>)) ''t1'' = Some 0 \<and>
   snd (Logout (recording (quiet\<lparr>sc_failing := [Call_Logout 0]\<rparr>)) (fresh\<lparr>clients := [(''t1'', 0)]\<rparr>) ''t1'')
     = Some (Error ''failed'') \<and>
   clients (fst (Logout (recording (quiet\<lparr>sc_failing := [Call_Logout 0]\<rparr>)) (fresh\<lparr>clients := [(''t1'', 0)]\<rparr>) ''t1''))
     = [(''t1'', 0)]"
  using Logout_returns_client_result [of "fresh\<lparr>clients := [(''t1'', 0)]\<rparr>" "''t1''" 0
      "recording (quiet\<lparr>sc_failing := [Call_Logout 0]\<rparr>)"]
  by (simp add: fresh_def recording_def quiet_def outcome_def)

subsection \<open>Identity resolution\<close>

text \<open>
  Claim C9.  \<^verbatim>\<open>extractJidLid\<close>, the resolver, returns for every input identity:
  \<^item> with no session registered for the tenant, the normalized input identity and an
    empty privacy identity;
  \<^item> for a phone-number-addressed identity, the normalized input identity and the
    normalized rendering of what the forward lookup handed back, which is empty when
    the lookup handed back the zero identity (as it does when it fails or finds nothing);
  \<^item> for a privacy-addressed identity whose reverse lookup succeeds with a non-empty
    phone identity, the normalized phone identity and the normalized privacy identity;
  \<^item> for a privacy-addressed identity whose reverse lookup fails or finds nothing, the
    normalized privacy identity twice.
\<close>

theorem extractJidLid_cases:
  "(map_of (clients s) tid = None \<longrightarrow> extractJidLid X s tid jid = (normalized jid, [])) \<and>
   (\<forall>client lid err.
      map_of (clients s) tid = Some client \<and> Server jid = DefaultUserServer \<and>
      x_GetLIDForPN X (ext s) client jid = (lid, err) \<longrightarrow>
        extractJidLid X s tid jid = (normalized jid, normalized lid) \<and>
        (lid = EmptyJID \<longrightarrow> extractJidLid X s tid jid = (normalized jid, []))) \<and>
   (\<forall>client pn.
      map_of (clients s) tid = Some client \<and> Server jid = HiddenUserServer \<and>
      x_GetPNForLID X (ext s) client jid = (pn, None) \<and> \<not> IsEmpty pn \<longrightarrow>
        extractJidLid X s tid jid = (normalized pn, normalized jid)) \<and>
   (\<forall>client pn err.
      map_of (clients s) tid = Some client \<and> Server jid = HiddenUserServer \<and>
      x_GetPNForLID X (ext s) client jid = (pn, err) \<and> (err \<noteq> None \<or> IsEmpty pn) \<longrightarrow>
        extractJidLid X s tid jid = (normalized jid, normalized jid))"
  by (auto simp: extractJidLid_def normalized_def DefaultUserServer_def HiddenUserServer_def
      EmptyJID_def ToNonAD_def JID_String_def Let_def)

theorem extractJidLid_cases_witness:
  "map_of (clients fresh) ''t1'' = None \<and>
   extractJidLid (recording quiet) fresh ''t1'' phone_jid = (''5511@s.whatsapp.net'', []) \<and>
   map_of (clients one_session) ''t1'' = Some 0 \<and>
   Server phone_jid = DefaultUserServer \<and>
   x_GetLIDForPN (recording (quiet\<lparr>sc_lids := [(phone_jid, privacy_jid)]\<rparr>)) (ext one_session) 0 phone_jid
     = (privacy_jid, None) \<and>
   extractJidLid (recording (quiet\<lparr>sc_lids := [(phone_jid, privacy_jid)]\<rparr>)) one_session ''t1'' phone_jid
     = (''5511@s.whatsapp.net'', ''9988@lid'') \<and>
   x_GetLIDForPN (recording (quiet\<lparr>sc_failing := [Call_GetLIDForPN]\<rparr>)) (ext one_session) 0 phone_jid
     = (EmptyJID, Some (Error ''failed'')) \<and>
   extractJidLid (recording (quiet\<lparr>sc_failing := [Call_GetLIDForPN]\<rparr>)) one_session ''t1'' phone_jid
     = (''5511@s.whatsapp.net'', []) \<and>
   Server privacy_jid = HiddenUserServer \<and>
   x_GetPNForLID (recording (quiet\<lparr>sc_pns := [(privacy_jid, phone_jid)]\<rparr>)) (ext one_session) 0 privacy_jid
     = (phone_jid, None) \<and>
   \<not> IsEmpty phone_jid \<and>
   extractJidLid (recording (quiet\<lparr>sc_pns := [(privacy_jid, phone_jid)]\<rparr>)) one_session ''t1'' privacy_jid
     = (''5511@s.whatsapp.net'', ''9988@lid'') \<and>
   x_GetPNForLID (recording quiet) (ext one_session) 0 privacy_jid = (EmptyJID, None) \<and>
   IsEmpty EmptyJID \<and>
   extractJidLid (recording quiet) one_session ''t1'' privacy_jid = (''9988@lid'', ''9988@lid'')"
proof -
  have a: "extractJidLid (recording quiet) fresh ''t1'' phone_jid = (''5511@s.whatsapp.net'', [])"
    using extractJidLid_cases [of fresh "''t1''" "recording quiet" phone_jid]
    by (simp add: demo_simps)
  have b: "extractJidLid (recording (quiet\<lparr>sc_lids := [(phone_jid, privacy_jid)]\<rparr>)) one_session ''t1'' phone_jid
     = (''5511@s.whatsapp.net'', ''9988@lid'')"
    using extractJidLid_cases [of one_session "''t1''"
        "recording (quiet\<lparr>sc_lids := [(phone_jid, privacy_jid)]\<rparr>)" phone_jid]
    by (simp add: demo_simps recording_simps quiet_simps)
  have c: "extractJidLid (recording (quiet\<lparr>sc_failing := [Call_GetLIDForPN]\<rparr>)) one_session ''t1'' phone_jid
     = (''5511@s.whatsapp.net'', [])"
    using extractJidLid_cases [of one_session "''t1''"
        "recording (quiet\<lparr>sc_failing := [Call_GetLIDForPN]\<rparr>)" phone_jid]
    by (simp add: demo_simps recording_simps quiet_simps)
  have d: "extractJidLid (recording (quiet\<lparr>sc_pns := [(privacy_jid, phone_jid)]\<rparr>)) one_session ''t1'' privacy_jid
     = (''5511@s.whatsapp.net'', ''9988@lid'')"
    using extractJidLid_cases [of one_session "''t1''"
        "recording (quiet\<lparr>sc_pns := [(privacy_jid, phone_jid)]\<rparr>)" privacy_jid]
    by (simp add: demo_simps recording_simps quiet_simps)
  have e: "extractJidLid (recording quiet) one_session ''t1'' privacy_jid = (''9988@lid'', ''9988@lid'')"
    using extractJidLid_cases [of one_session "''t1''" "recording quiet" privacy_jid]
    by (simp add: demo_simps recording_simps quiet_simps)
  show ?thesis
    using a b c d e by (simp add: demo_simps recording_simps quiet_simps)
qed

text \<open>
  The exported wrapper \<^verbatim>\<open>GetJidLid\<close> returns the resolver's pair, except that a
  canonical identity ending in \<^verbatim>\<open>@lid\<close> is copied into the privacy field.  So with no
  session registered a privacy-addressed input comes back in both fields.
\<close>

lemma GetJidLid_forces_privacy:
  "GetJidLid X s tid jid =
     (fst (extractJidLid X s tid jid),
      if HasSuffix (fst (extractJidLid X s tid jid)) ''@lid'' then fst (extractJidLid X s tid jid)
      else snd (extractJidLid X s tid jid))"
  by (simp add: GetJidLid_def split: prod.splits)

lemma GetJidLid_no_session_privacy:
  "GetJidLid (recording quiet) fresh ''t1'' privacy_jid = (''9988@lid'', ''9988@lid'')"
  by (simp add: GetJidLid_def extractJidLid_def demo_simps HasSuffix_def normalized_def [symmetric])

subsection \<open>Connect\<close>




lemma Connect_client_maps:
  "qrCache (fst (Connect_client X s tid)) = qrCache s"
  "observerRunning (fst (Connect_client X s tid)) = observerRunning s"
  by (simp_all add: Connect_client_def split: option.splits prod.splits)

lemma Connect_renew_maps:
  "qrCache (fst (Connect_renew X s tid client)) = qrCache s"
  "observerRunning (fst (Connect_renew X s tid client)) = observerRunning s"
  by (simp_all add: Connect_renew_def split: prod.splits)


lemma Connect_renew_returns:
  "Connect_renew X s tid client = (s2, Inr client2) \<Longrightarrow> x_StoreID X (ext s) client \<noteq> None \<Longrightarrow>
     (ext s2, client2) = x_NewClient X (discard X (ext s) client) \<and>
     clients s2 = AList.update tid client2 (clients s)"
  by (auto simp: Connect_renew_def discard_def Let_def split: prod.splits if_splits)

lemma Connect_renew_panics:
  "Connect_renew X s tid client = (s2, Inl p) \<longleftrightarrow>
     x_StoreID X (ext s) client \<noteq> None \<and>
     (case x_Logout X (ext s) client of
        (e1, err) \<Rightarrow>
          if err \<noteq> None \<and> x_StoreID X e1 client = None then s2 = s\<lparr>ext := e1\<rparr>
          else
            (case x_DeleteDevice X (x_Disconnect X e1 client) client of
               (e3, err') \<Rightarrow> err' \<noteq> None \<and> x_StoreID X e3 client = None \<and> s2 = s\<lparr>ext := e3\<rparr>))"
  by (cases p) (auto simp: Connect_renew_def split: prod.splits if_splits)


lemma Connect_maps:
  "qrCache (fst (Connect X ctx now tie qr_at s tid)) = qrCache s"
  "observerRunning (fst (Connect X ctx now tie qr_at s tid)) = observerRunning s"
proof -
  obtain s1 client where a: "Connect_client X s tid = (s1, client)"
    by (cases "Connect_client X s tid")
  obtain s2 r where b: "Connect_renew X s1 tid client = (s2, r)"
    by (cases "Connect_renew X s1 tid client")
  from a have a': "qrCache s1 = qrCache s" "observerRunning s1 = observerRunning s"
    using Connect_client_maps [of X s tid] by simp_all
  from b have b': "qrCache s2 = qrCache s1" "observerRunning s2 = observerRunning s1"
    using Connect_renew_maps [of X s1 tid client] by simp_all
  show "qrCache (fst (Connect X ctx now tie qr_at s tid)) = qrCache s"
    using a b a' b' by (simp add: Connect_def split: option.splits prod.splits sum.splits)
  show "observerRunning (fst (Connect X ctx now tie qr_at s tid)) = observerRunning s"
    using a b a' b' by (simp add: Connect_def split: option.splits prod.splits sum.splits)
qed

lemma Connect_already_authenticated:
  "map_of (clients s) tid = Some client \<Longrightarrow> x_IsLoggedIn X (ext s) client \<Longrightarrow>
     Connect X ctx now tie qr_at s tid = (s, None, Inr ([], None))"
  by (simp add: Connect_def Connect_client_def)



lemma logout_clears_simps:
  "x_IsLoggedIn (logout_clears sc) e r = (r \<in> set (sc_loggedIn sc))"
  "x_StoreID (logout_clears sc) e r =
     (if Call_Logout r \<in> set e then None else map_of (sc_storeID sc) r)"
  "x_Logout (logout_clears sc) e r = (e @ [Call_Logout r], outcome sc (Call_Logout r))"
  "x_Disconnect (logout_clears sc) e r = e @ [Call_Disconnect r]"
  "x_DeleteDevice (logout_clears sc) e r = (e @ [Call_DeleteDevice r], outcome sc (Call_DeleteDevice r))"
  "x_NewClient (logout_clears sc) e = (e @ [Call_NewClient], 1000 + length e)"
  by (simp_all add: logout_clears_def recording_simps)

text \<open>
  The teardown block of \<^verbatim>\<open>Connect\<close> can panic.  With a stand-in whose logout succeeds
  and clears the identity, and whose delete-device then fails, the log call after the
  failed delete dereferences the nil identity.
\<close>

lemma Connect_panics_after_logout:
  "Connect (logout_clears (quiet\<lparr>sc_storeID := [(0, phone_jid)], sc_failing := [Call_DeleteDevice 0]\<rparr>))
      ctx_TODO 0 False Map.empty one_session ''t1''
   = (one_session\<lparr>ext := [Call_Logout 0, Call_Disconnect 0, Call_DeleteDevice 0]\<rparr>, None,
      Inl NilPointerDereference)"
  by (simp add: Connect_def Connect_client_def Connect_renew_def logout_clears_simps
      demo_simps quiet_simps outcome_def)

lemma observeConnection_loop_code:
  "\<not> done_first D tie t \<Longrightarrow>
     observeConnection_loop X D tie client tid s ((t, Item \<lparr>Event = ''code'', Code = code\<rparr>) # rest)
       = observeConnection_loop X D tie client tid (s\<lparr>qrCache := (qrCache s)(tid \<mapsto> code)\<rparr>) rest"
  by simp







subsection \<open>Concurrent observers\<close>

lemma active_for_nonempty:
  "active_for tid gs \<noteq> [] \<longleftrightarrow> (\<exists>j<length gs. fst (gs ! j) = tid \<and> active (snd (gs ! j)))"
proof
  assume "active_for tid gs \<noteq> []"
  then obtain g where "g \<in> set gs" "fst g = tid" "active (snd g)"
    by (auto simp: active_for_def filter_empty_conv)
  then show "\<exists>j<length gs. fst (gs ! j) = tid \<and> active (snd (gs ! j))"
    by (metis in_set_conv_nth)
next
  assume "\<exists>j<length gs. fst (gs ! j) = tid \<and> active (snd (gs ! j))"
  then obtain j where "j < length gs" "fst (gs ! j) = tid" "active (snd (gs ! j))" by blast
  then have "gs ! j \<in> set gs \<and> fst (gs ! j) = tid \<and> active (snd (gs ! j))" by simp
  then show "active_for tid gs \<noteq> []"
    unfolding active_for_def filter_empty_conv by blast
qed

lemma observer_step_tid:
  "fst (snd (observer_step sh g m)) = fst g"
  by (cases "(sh, g, m)" rule: observer_step.cases) auto

lemma observer_step_keeps_active:
  "active (snd g) \<Longrightarrow> snd g \<noteq> DeferCache \<Longrightarrow> active (snd (snd (observer_step sh g m)))"
  by (cases "(sh, g, m)" rule: observer_step.cases) auto

lemma observer_step_cache:
  "sh_cache (fst (observer_step sh g m)) tid \<noteq> None \<Longrightarrow>
     (sh_cache sh tid \<noteq> None \<and> \<not> (fst g = tid \<and> snd g = DeferCache)) \<or>
     (fst g = tid \<and> active (snd (snd (observer_step sh g m))))"
  by (cases "(sh, g, m)" rule: observer_step.cases) (auto split: if_splits)

lemma sched_step_inv:
  assumes inv: "cache_only_while_observing st"
  shows "cache_only_while_observing (sched_step st a)"
proof -
  obtain sh gs where st: "st = (sh, gs)" by (cases st)
  obtain i m where a: "a = (i, m)" by (cases a)
  show ?thesis
  proof (cases "i < length gs")
    case False
    with inv st a show ?thesis by simp
  next
    case i: True
    obtain sh' g' where step: "observer_step sh (gs ! i) m = (sh', g')"
      by (cases "observer_step sh (gs ! i) m")
    have res: "sched_step st a = (sh', gs[i := g'])"
      using st a i step by simp
    have tid': "fst g' = fst (gs ! i)"
      using observer_step_tid [of sh "gs ! i" m] step by simp
    show ?thesis
      unfolding res cache_only_while_observing_def
    proof (intro allI impI)
      fix tid
      assume c: "sh_cache (fst (sh', gs[i := g'])) tid \<noteq> None"
      then have "sh_cache (fst (observer_step sh (gs ! i) m)) tid \<noteq> None"
        using step by simp
      from observer_step_cache [OF this]
      consider (old) "sh_cache sh tid \<noteq> None" "\<not> (fst (gs ! i) = tid \<and> snd (gs ! i) = DeferCache)"
        | (new) "fst (gs ! i) = tid" "active (snd g')"
        using step by auto
      then have "\<exists>j<length (gs[i := g']). fst (gs[i := g'] ! j) = tid \<and> active (snd (gs[i := g'] ! j))"
      proof cases
        case new
        with i tid' show ?thesis
          by (intro exI [of _ i]) simp
      next
        case old
        from inv st old(1) obtain j where j: "j < length gs" "fst (gs ! j) = tid" "active (snd (gs ! j))"
          by (auto simp: cache_only_while_observing_def active_for_nonempty)
        show ?thesis
        proof (cases "j = i")
          case False
          with j show ?thesis
            by (intro exI [of _ j]) simp
        next
          case True
          with j old(2) have "snd (gs ! i) \<noteq> DeferCache" "active (snd (gs ! i))" by auto
          then have "active (snd g')"
            using observer_step_keeps_active [of "gs ! i" sh m] step by simp
          with i tid' j True show ?thesis
            by (intro exI [of _ i]) simp
        qed
      qed
      then show "active_for tid (snd (sh', gs[i := g'])) \<noteq> []"
        by (simp add: active_for_nonempty)
    qed
  qed
qed

lemma run_sched_inv:
  "cache_only_while_observing st \<Longrightarrow> cache_only_while_observing (run_sched st sched)"
  unfolding run_sched_def
  by (induction sched arbitrary: st) (simp_all add: sched_step_inv)

text \<open>
  Claim C1 says that at most one observer per tenant passes the entry guard because the
  guard is one atomic check-and-set.  The source's guard is a \<^verbatim>\<open>Load\<close> followed by a
  separate \<^verbatim>\<open>Store\<close>.  With two observer goroutines for tenant \<open>t1\<close> and no flag
  set, the schedule in which both load before either stores leaves both past the
  guard, observing at the same time.
\<close>

theorem observer_guard_race:
  "run_sched (\<lparr>sh_running = Map.empty, sh_cache = Map.empty\<rparr>,
              [(''t1'', GuardLoad), (''t1'', GuardLoad)])
     [(0, Next), (1, Next), (0, Next), (1, Next)]
   = (\<lparr>sh_running = [''t1'' \<mapsto> True], sh_cache = Map.empty\<rparr>,
      [(''t1'', Observing), (''t1'', Observing)]) \<and>
   length (active_for ''t1'' (snd (run_sched (\<lparr>sh_running = Map.empty, sh_cache = Map.empty\<rparr>,
              [(''t1'', GuardLoad), (''t1'', GuardLoad)])
     [(0, Next), (1, Next), (0, Next), (1, Next)]))) = 2"
  by (simp add: run_sched_def active_for_def)

subsection \<open>The pairing observer\<close>


lemma observeConnection_loop_running:
  "observerRunning (fst (observeConnection_loop X D tie client tid s evs)) = observerRunning s"
  by (induction X D tie client tid s evs rule: observeConnection_loop.induct)
    (auto simp: expire_def Let_def split: qr_recv.splits option.splits)

lemma observeConnection_loop_exits:
  "snd (observeConnection_loop X D tie client tid s evs) \<in> {Expired, ChannelClosed, PairedNoJid, Paired}"
  by (induction X D tie client tid s evs rule: observeConnection_loop.induct)
    (auto simp: Let_def split: qr_recv.splits option.splits)



lemma observeConnection_loop_exitsD:
  "observeConnection_loop X D tie client tid s evs = (s', ex) \<Longrightarrow> ex \<noteq> AlreadyRunning"
  using observeConnection_loop_exits [of X D tie client tid s evs] by auto


lemma observeConnection_body_running:
  "observerRunning (fst (observeConnection_body X now tie evs s client tid)) = observerRunning s"
  by (simp add: observeConnection_body_def observeConnection_loop_running Let_def
      split: prod.splits)


lemma deferred_facts:
  "observerRunning (deferred s tid) tid = None"
  "qrCache (deferred s tid) tid = None"
  "clients (deferred s tid) = clients s"
  "ext (deferred s tid) = ext s"
  by (simp_all add: deferred_def)

lemma observeConnection_clears:
  "observerRunning s tid = None \<Longrightarrow>
     snd (observeConnection X now tie evs s client tid) \<noteq> AlreadyRunning \<and>
     observerRunning (fst (observeConnection X now tie evs s client tid)) tid = None \<and>
     qrCache (fst (observeConnection X now tie evs s client tid)) tid = None"
proof -
  assume g: "observerRunning s tid = None"
  obtain s' ex where b: "observeConnection_body X now tie evs
      (s\<lparr>observerRunning := (observerRunning s)(tid \<mapsto> True)\<rparr>) client tid = (s', ex)"
    by (cases "observeConnection_body X now tie evs
      (s\<lparr>observerRunning := (observerRunning s)(tid \<mapsto> True)\<rparr>) client tid")
  have "ex \<noteq> AlreadyRunning"
    using b
    by (auto simp: observeConnection_body_def Let_def split: prod.splits if_splits
        dest: observeConnection_loop_exitsD)
  with g b show ?thesis
    by (simp add: observeConnection_def deferred_facts)
qed




lemma observer_terminal_item:
  "\<not> done_first D tie t \<Longrightarrow> Event evt \<noteq> ''code'' \<Longrightarrow>
     observeConnection_loop X D tie client tid s ((t, Item evt) # rest) =
       (case x_StoreID X (ext s) client of
          None \<Rightarrow> (s\<lparr>ext := x_cancel X (ext s) client\<rparr>, PairedNoJid)
        | Some jid \<Rightarrow>
            (s\<lparr>ext := x_cancel X
                 (fst (x_RepoUpdate X
                    (x_AddEventHandler X (x_RemoveEventHandlers X (ext s) client) client tid)
                    tid (JID_String jid))) client\<rparr>, Paired))"
  by (simp add: Let_def split: option.splits)

text \<open>
  Claim C6.  A run of the observer that passes the entry guard (no flag was set for the
  tenant) does not end at the guard, and whichever of its returns it takes (the pairing
  channel could not be opened, the connect failed, the window expired, the channel was
  closed, a terminal item arrived) it leaves neither an observer flag nor a pairing
  cache entry for its tenant.  Under every interleaving of observer goroutines, a
  tenant that has a pairing cache entry has an observer goroutine that has passed the
  guard and not returned yet.
\<close>

theorem observer_clears_flag_and_cache:
  "(observerRunning s tid = None \<longrightarrow>
      snd (observeConnection X now tie evs s client tid) \<noteq> AlreadyRunning \<and>
      observerRunning (fst (observeConnection X now tie evs s client tid)) tid = None \<and>
      qrCache (fst (observeConnection X now tie evs s client tid)) tid = None) \<and>
   (cache_only_while_observing st \<longrightarrow> cache_only_while_observing (run_sched st sched))"
  using observeConnection_clears [of s tid X now tie evs client] run_sched_inv [of st sched]
  by blast

theorem observer_clears_flag_and_cache_witness:
  "observerRunning one_session ''t1'' = None \<and>
   snd (observeConnection (recording (quiet\<lparr>sc_failing := [Call_GetQRChannel 0]\<rparr>)) 0 False
      [(1000, Item \<lparr>Event = ''code'', Code = ''ABC123''\<rparr>)] one_session 0 ''t1'') = QRChannelError \<and>
   qrCache (fst (observeConnection (recording (quiet\<lparr>sc_failing := [Call_GetQRChannel 0]\<rparr>)) 0 False
      [(1000, Item \<lparr>Event = ''code'', Code = ''ABC123''\<rparr>)] one_session 0 ''t1'')) ''t1'' = None \<and>
   snd (observeConnection (recording (quiet\<lparr>sc_failing := [Call_Connect 0]\<rparr>)) 0 False
      [(1000, Item \<lparr>Event = ''code'', Code = ''ABC123''\<rparr>)] one_session 0 ''t1'') = ConnectError \<and>
   qrCache (fst (observeConnection (recording (quiet\<lparr>sc_failing := [Call_Connect 0]\<rparr>)) 0 False
      [(1000, Item \<lparr>Event = ''code'', Code = ''ABC123''\<rparr>)] one_session 0 ''t1'')) ''t1'' = None \<and>
   snd (observeConnection (recording quiet) 0 False
      [(1000, Item \<lparr>Event = ''code'', Code = ''ABC123''\<rparr>)] one_session 0 ''t1'') = Expired \<and>
   qrCache (fst (observeConnection (recording quiet) 0 False
      [(1000, Item \<lparr>Event = ''code'', Code = ''ABC123''\<rparr>)] one_session 0 ''t1'')) ''t1'' = None \<and>
   snd (observeConnection (recording quiet) 0 False
      [(1000, Item \<lparr>Event = ''code'', Code = ''ABC123''\<rparr>), (2000, ChanClosed)] one_session 0 ''t1'')
     = ChannelClosed \<and>
   qrCache (fst (observeConnection (recording quiet) 0 False
      [(1000, Item \<lparr>Event = ''code'', Code = ''ABC123''\<rparr>), (2000, ChanClosed)] one_session 0 ''t1'')) ''t1''
     = None \<and>
   snd (observeConnection (recording (quiet\<lparr>sc_storeID := [(0, phone_jid)]\<rparr>)) 0 False
      [(1000, Item \<lparr>Event = ''code'', Code = ''ABC123''\<rparr>),
       (3000, Item \<lparr>Event = ''success'', Code = []\<rparr>)] one_session 0 ''t1'') = Paired \<and>
   qrCache (fst (observeConnection (recording (quiet\<lparr>sc_storeID := [(0, phone_jid)]\<rparr>)) 0 False
      [(1000, Item \<lparr>Event = ''code'', Code = ''ABC123''\<rparr>),
       (3000, Item \<lparr>Event = ''success'', Code = []\<rparr>)] one_session 0 ''t1'')) ''t1'' = None \<and>
   cache_only_while_observing
     (\<lparr>sh_running = Map.empty, sh_cache = Map.empty\<rparr>, [(''t1'', GuardLoad), (''t1'', GuardLoad)]) \<and>
   run_sched (\<lparr>sh_running = Map.empty, sh_cache = Map.empty\<rparr>, [(''t1'', GuardLoad), (''t1'', GuardLoad)])
      [(0, Next), (0, Next), (0, RecvCode ''ABC123''), (1, Next), (0, Return), (0, Next)]
     = (\<lparr>sh_running = Map.empty, sh_cache = [''t1'' \<mapsto> ''ABC123'']\<rparr>,
        [(''t1'', DeferCache), (''t1'', Returned)]) \<and>
   cache_only_while_observing
     (run_sched (\<lparr>sh_running = Map.empty, sh_cache = Map.empty\<rparr>, [(''t1'', GuardLoad), (''t1'', GuardLoad)])
        [(0, Next), (0, Next), (0, RecvCode ''ABC123''), (1, Next), (0, Return), (0, Next)])"
proof -
  have g: "observerRunning one_session ''t1'' = None"
    by (simp add: demo_simps)
  have i: "cache_only_while_observing
     (\<lparr>sh_running = Map.empty, sh_cache = Map.empty\<rparr>, [(''t1'', GuardLoad), (''t1'', GuardLoad)])"
    by (simp add: cache_only_while_observing_def)
  have r: "run_sched (\<lparr>sh_running = Map.empty, sh_cache = Map.empty\<rparr>, [(''t1'', GuardLoad), (''t1'', GuardLoad)])
      [(0, Next), (0, Next), (0, RecvCode ''ABC123''), (1, Next), (0, Return), (0, Next)]
     = (\<lparr>sh_running = Map.empty, sh_cache = [''t1'' \<mapsto> ''ABC123'']\<rparr>,
        [(''t1'', DeferCache), (''t1'', Returned)])"
    by (simp add: run_sched_def)
  note t = observer_clears_flag_and_cache
  show ?thesis
    using g i r
      t [of one_session "''t1''" "recording (quiet\<lparr>sc_failing := [Call_GetQRChannel 0]\<rparr>)" 0 False
          "[(1000, Item \<lparr>Event = ''code'', Code = ''ABC123''\<rparr>)]" 0]
      t [of one_session "''t1''" "recording (quiet\<lparr>sc_failing := [Call_Connect 0]\<rparr>)" 0 False
          "[(1000, Item \<lparr>Event = ''code'', Code = ''ABC123''\<rparr>)]" 0]
      t [of one_session "''t1''" "recording quiet" 0 False
          "[(1000, Item \<lparr>Event = ''code'', Code = ''ABC123''\<rparr>)]" 0]
      t [of one_session "''t1''" "recording quiet" 0 False
          "[(1000, Item \<lparr>Event = ''code'', Code = ''ABC123''\<rparr>), (2000, ChanClosed)]" 0]
      t [of one_session "''t1''" "recording (quiet\<lparr>sc_storeID := [(0, phone_jid)]\<rparr>)" 0 False
          "[(1000, Item \<lparr>Event = ''code'', Code = ''ABC123''\<rparr>),
            (3000, Item \<lparr>Event = ''success'', Code = []\<rparr>)]" 0
          "(\<lparr>sh_running = Map.empty, sh_cache = Map.empty\<rparr>, [(''t1'', GuardLoad), (''t1'', GuardLoad)])"
          "[(0, Next), (0, Next), (0, RecvCode ''ABC123''), (1, Next), (0, Return), (0, Next)]"]
    by (simp add: demo_run_qr_error demo_run_connect_error demo_run_expired demo_run_closed
        demo_run_success)
qed



text \<open>
  Claim C4 says that only a \<open>success\<close> item takes the observer through the paired
  transition.  The source takes that transition for every item that is not a \<open>code\<close>
  (lemma \<open>observer_terminal_item\<close>): it tests \<^verbatim>\<open>evt.Event == "code"\<close> and treats the
  \<^verbatim>\<open>else\<close> branch, which it logs as ``device connected successfully'', as success.
  An \<open>error\<close> item received while the session carries an identity makes the observer
  swap the event handler and write that identity to the tenant record.
\<close>

theorem error_event_taken_as_success:
  "observeConnection (recording (quiet\<lparr>sc_storeID := [(0, phone_jid)]\<rparr>)) 0 False
      [(1000, Item \<lparr>Event = ''error'', Code = []\<rparr>)] one_session 0 ''t1''
   = (\<lparr>ext = [Call_GetQRChannel 0, Call_getInstanceCached ''t1'', Call_configProxy 0,
              Call_Connect 0, Call_RemoveEventHandlers 0, Call_AddEventHandler 0 ''t1'',
              Call_RepoUpdate ''t1'' ''5511:3@s.whatsapp.net'', Call_cancel 0],
       clients = [(''t1'', 0)], qrCache = Map.empty, observerRunning = Map.empty\<rparr>, Paired)"
  by (simp add: observeConnection_def observeConnection_body_def Let_def recording_simps
      quiet_simps outcome_def run_simps expire_def discard_def deferred_def
      one_session_def fresh_def demo_simps)

subsection \<open>Bootstrap\<close>










end
